theory Spec2Isabelle
  imports Main
begin

section \<open>Python values, exceptions and the builtins the script uses\<close>

text \<open>
  The script \<^verbatim>\<open>script_generator.py\<close> is embedded function by function. Exceptions are
  values of \<open>exn\<close>; a call that may raise returns \<open>exn + 'a\<close> with \<open>Inl\<close> the raised
  exception. \<open>SystemExit\<close> and \<open>KeyboardInterrupt\<close> derive from \<^verbatim>\<open>BaseException\<close> only, so
  a handler \<^verbatim>\<open>except Exception\<close> does not catch them.
\<close>

datatype exn =
    ArgumentTypeError string
  | ValueError
  | UnboundLocalError
  | OtherException string
  | SystemExit int
  | KeyboardInterrupt

fun is_Exception :: "exn \<Rightarrow> bool" where
  "is_Exception (SystemExit c) = False"
| "is_Exception KeyboardInterrupt = False"
| "is_Exception e = True"

text \<open>
  The validators are \<^verbatim>\<open>type\<close> functions of argparse, which calls them on the argument
  string; the specification speaks of them on integers. Both kinds of input are values
  of \<open>pyval\<close>.
\<close>

datatype pyval = PyInt int | PyStr string

text \<open>
  \<^verbatim>\<open>int(s)\<close> on an ASCII string: surrounding whitespace is dropped, one sign is allowed,
  then decimal digits follow, with single underscores allowed between digits. Anything
  else is a \<^verbatim>\<open>ValueError\<close>.
\<close>

definition py_isspace :: "char \<Rightarrow> bool" where
  "py_isspace c = (c \<in> set [CHR '' '', CHR 0x09, CHR 0x0A, CHR 0x0B, CHR 0x0C, CHR 0x0D])"

definition py_isdigit :: "char \<Rightarrow> bool" where
  "py_isdigit c = (48 \<le> (of_char c :: nat) \<and> (of_char c :: nat) \<le> 57)"

definition digit_val :: "char \<Rightarrow> int" where
  "digit_val c = int (of_char c) - 48"

fun parse_digits :: "string \<Rightarrow> int \<Rightarrow> int option" where
  "parse_digits [] acc = Some acc"
| "parse_digits (c # cs) acc =
     (if py_isdigit c then parse_digits cs (10 * acc + digit_val c)
      else if c = CHR ''_'' then
        (case cs of
           [] \<Rightarrow> None
         | d # ds \<Rightarrow> if py_isdigit d then parse_digits cs acc else None)
      else None)"

definition parse_unsigned :: "string \<Rightarrow> int option" where
  "parse_unsigned s =
     (case s of
        [] \<Rightarrow> None
      | c # cs \<Rightarrow> if py_isdigit c then parse_digits s 0 else None)"

definition strip_ws :: "string \<Rightarrow> string" where
  "strip_ws s = rev (dropWhile py_isspace (rev (dropWhile py_isspace s)))"

definition int_of_str :: "string \<Rightarrow> int option" where
  "int_of_str s =
     (case strip_ws s of
        [] \<Rightarrow> None
      | c # cs \<Rightarrow>
          if c = CHR ''-'' then map_option uminus (parse_unsigned cs)
          else if c = CHR ''+'' then parse_unsigned cs
          else parse_unsigned (c # cs))"

fun py_int :: "pyval \<Rightarrow> exn + int" where
  "py_int (PyInt n) = Inr n"
| "py_int (PyStr s) = (case int_of_str s of None \<Rightarrow> Inl ValueError | Some n \<Rightarrow> Inr n)"

text \<open>\<^verbatim>\<open>str(n)\<close> on an integer: its decimal digits, with a minus sign when negative.\<close>

definition digit_char :: "nat \<Rightarrow> char" where
  "digit_char d = ''0123456789'' ! d"

fun str_nat :: "nat \<Rightarrow> string" where
  "str_nat n = (if n < 10 then [digit_char n] else str_nat (n div 10) @ [digit_char (n mod 10)])"

declare str_nat.simps [simp del]

definition py_str :: "int \<Rightarrow> string" where
  "py_str i = (if i < 0 then CHR ''-'' # str_nat (nat (- i)) else str_nat (nat i))"

text \<open>The integer an input stands for, if any: itself, or what \<^verbatim>\<open>int\<close> reads from the string.\<close>

fun denotes :: "pyval \<Rightarrow> int option" where
  "denotes (PyInt n) = Some n"
| "denotes (PyStr s) = int_of_str s"

section \<open>The validators\<close>

text \<open>
  \<^verbatim>\<open>check_output_count\<close> and \<^verbatim>\<open>check_level\<close>: convert with \<^verbatim>\<open>int\<close>, raise
  \<^verbatim>\<open>argparse.ArgumentTypeError\<close> when the number is out of range, return the number
  otherwise. They read and write nothing but their argument, so they take no state.
  The two string literals of the first message are adjacent in the source and are
  joined without a space.
\<close>

definition count_msg :: string where
  "count_msg = ''There must be a positive number ofimages generated''"

definition level_msg :: string where
  "level_msg = ''Level values must be between 1 and 5''"

definition check_output_count :: "pyval \<Rightarrow> exn + int" where
  "check_output_count v =
     (case py_int v of
        Inl e \<Rightarrow> Inl e
      | Inr n \<Rightarrow> if n < 1 then Inl (ArgumentTypeError count_msg) else Inr n)"

definition check_level :: "pyval \<Rightarrow> exn + int" where
  "check_level v =
     (case py_int v of
        Inl e \<Rightarrow> Inl e
      | Inr n \<Rightarrow> if n < 1 \<or> n > 5 then Inl (ArgumentTypeError level_msg) else Inr n)"

section \<open>Argument parsing\<close>

text \<open>
  \<^verbatim>\<open>args\<close>, the namespace that \<^verbatim>\<open>parser.parse_args()\<close> returns, with the four
  destinations the parser declares.
\<close>

record namespace =
  output_count :: int
  stain_level :: int
  text_noise_level :: int
  output_dir :: string

text \<open>
  The command line after tokenising: the positional strings in order, and the value
  of \<^verbatim>\<open>--output_dir\<close> when the flag is present.
\<close>

record cmdline =
  positionals :: "string list"
  output_dir_opt :: "string option"

text \<open>
  \<^verbatim>\<open>random.randint(a, b)\<close> returns \<open>a + k\<close> for some \<open>k\<close> among the \<open>b - a + 1\<close> values
  \<open>0, \<dots>, b - a\<close>, both ends of the range included; which one is up to the state of the
  global generator, which the script never seeds. That state is the parameter \<open>g\<close>: the
  states are numbered so that state \<open>g\<close> picks \<open>k = g mod (b - a + 1)\<close>. The definition is
  for \<open>a \<le> b\<close>, as in the only call the script makes.
\<close>

definition randint :: "int \<Rightarrow> int \<Rightarrow> nat \<Rightarrow> int" where
  "randint a b g = a + int (g mod nat (b - a + 1))"

text \<open>
  \<^verbatim>\<open>DEFAULT_DIR\<close> is computed once, when the module is loaded, from one call
  \<^verbatim>\<open>random.randint(10000, 100000)\<close>; it depends on nothing but the generator state.
\<close>

definition DEFAULT_DIR :: "nat \<Rightarrow> string" where
  "DEFAULT_DIR g = ''/data/synthetic_trial_'' @ py_str (randint 10000 100000 g)"

text \<open>
  What argparse does with an exception of a \<^verbatim>\<open>type\<close> function: \<^verbatim>\<open>ArgumentTypeError\<close>,
  \<^verbatim>\<open>TypeError\<close> and \<^verbatim>\<open>ValueError\<close> become a usage error, which ends the process with
  status 2; any other exception passes through.
\<close>

fun argparse_error :: "exn \<Rightarrow> exn" where
  "argparse_error (ArgumentTypeError m) = SystemExit 2"
| "argparse_error ValueError = SystemExit 2"
| "argparse_error e = e"

text \<open>
  A positional with \<^verbatim>\<open>nargs='?'\<close>: the \<open>i\<close>-th string converted by the \<^verbatim>\<open>type\<close> function
  when it is there, the default otherwise (a default that is not a string is not
  converted).
\<close>

definition positional :: "(pyval \<Rightarrow> exn + int) \<Rightarrow> int \<Rightarrow> string list \<Rightarrow> nat \<Rightarrow> exn + int" where
  "positional type_func dflt ps i =
     (if i < length ps then
        (case type_func (PyStr (ps ! i)) of
           Inl e \<Rightarrow> Inl (argparse_error e)
         | Inr v \<Rightarrow> Inr v)
      else Inr dflt)"

definition parse_args :: "nat \<Rightarrow> cmdline \<Rightarrow> exn + namespace" where
  "parse_args r cl =
     (case positional check_output_count 5 (positionals cl) 0 of
        Inl e \<Rightarrow> Inl e
      | Inr n \<Rightarrow>
     (case positional check_level 1 (positionals cl) 1 of
        Inl e \<Rightarrow> Inl e
      | Inr s \<Rightarrow>
     (case positional check_level 1 (positionals cl) 2 of
        Inl e \<Rightarrow> Inl e
      | Inr t \<Rightarrow>
          if 3 < length (positionals cl) then Inl (SystemExit 2)
          else Inr \<lparr>output_count = n, stain_level = s, text_noise_level = t,
                    output_dir = (case output_dir_opt cl of
                                    None \<Rightarrow> DEFAULT_DIR r
                                  | Some d \<Rightarrow> d)\<rparr>)))"

section \<open>The document class and the world a job acts on\<close>

text \<open>
  A job prints to standard output and writes files. The world records the printed
  lines and the artifacts written, each in order. An artifact is named by its kind,
  the base directory and the seed of its document.
\<close>

datatype artifact = Image string int | GroundTruth string int

fun artifact_dir :: "artifact \<Rightarrow> string" where
  "artifact_dir (Image d s) = d"
| "artifact_dir (GroundTruth d s) = d"

record world =
  stdout :: "string list"
  files :: "artifact list"

definition print :: "string \<Rightarrow> world \<Rightarrow> world" where
  "print line w = w\<lparr>stdout := stdout w @ [line]\<rparr>"

text \<open>
  Modelled from the spec: the class \<^verbatim>\<open>Document\<close> of the module \<^verbatim>\<open>document\<close>, which the
  script imports and which is not among the sources. Following sections 3, 4.3 and 4.4
  of the specification, a document holds its seed and the two levels; \<^verbatim>\<open>create\<close> fills
  it; \<^verbatim>\<open>save\<close> writes the composite image and \<^verbatim>\<open>save_ground_truth\<close> the mask under the
  base directory, named from the seed. Each of the four operations may raise. What a
  given job meets is its \<open>job_env\<close>: the seed its document draws, and for each operation
  the exception it raises, if any. An operation that raises writes nothing.
\<close>

datatype step = Construct | Create | Save | SaveGroundTruth

record job_env =
  seed_draw :: int
  fault :: "step \<Rightarrow> exn option"

record document =
  random_seed :: int
  doc_stain_level :: int
  doc_text_noise_level :: int
  created :: bool

definition Document :: "job_env \<Rightarrow> int \<Rightarrow> int \<Rightarrow> exn + document" where
  "Document E s t =
     (case fault E Construct of
        Some e \<Rightarrow> Inl e
      | None \<Rightarrow> Inr \<lparr>random_seed = seed_draw E, doc_stain_level = s,
                      doc_text_noise_level = t, created = False\<rparr>)"

definition create :: "job_env \<Rightarrow> document \<Rightarrow> exn + document" where
  "create E d =
     (case fault E Create of
        Some e \<Rightarrow> Inl e
      | None \<Rightarrow> Inr (d\<lparr>created := True\<rparr>))"

definition save :: "job_env \<Rightarrow> document \<Rightarrow> string \<Rightarrow> world \<Rightarrow> (exn + unit) \<times> world" where
  "save E d base_dir w =
     (case fault E Save of
        Some e \<Rightarrow> (Inl e, w)
      | None \<Rightarrow> (Inr (), w\<lparr>files := files w @ [Image base_dir (random_seed d)]\<rparr>))"

definition save_ground_truth ::
    "job_env \<Rightarrow> document \<Rightarrow> string \<Rightarrow> world \<Rightarrow> (exn + unit) \<times> world" where
  "save_ground_truth E d base_dir w =
     (case fault E SaveGroundTruth of
        Some e \<Rightarrow> (Inl e, w)
      | None \<Rightarrow> (Inr (), w\<lparr>files := files w @ [GroundTruth base_dir (random_seed d)]\<rparr>))"

section \<open>One job\<close>

text \<open>The dictionary \<^verbatim>\<open>fn_args\<close> handed to a job: its index and the shared namespace.\<close>

record fn_args =
  iter :: int
  args :: namespace

text \<open>
  The body of the \<^verbatim>\<open>try\<close> block of \<^verbatim>\<open>generate_single_image\<close>. Besides the outcome and
  the world it returns the local variable \<^verbatim>\<open>document\<close>, which is unbound (\<open>None\<close>) until
  the constructor has returned.
\<close>

definition try_body ::
    "job_env \<Rightarrow> fn_args \<Rightarrow> world \<Rightarrow> (exn + unit) \<times> document option \<times> world" where
  "try_body E fa w =
     (case Document E (stain_level (args fa)) (text_noise_level (args fa)) of
        Inl e \<Rightarrow> (Inl e, None, w)
      | Inr d0 \<Rightarrow>
     (case create E d0 of
        Inl e \<Rightarrow> (Inl e, Some d0, w)
      | Inr d \<Rightarrow>
     (case save E d (output_dir (args fa)) w of
        (Inl e, w1) \<Rightarrow> (Inl e, Some d, w1)
      | (Inr u, w1) \<Rightarrow>
     (case save_ground_truth E d (output_dir (args fa)) w1 of
        (Inl e, w2) \<Rightarrow> (Inl e, Some d, w2)
      | (Inr u', w2) \<Rightarrow> (Inr (), Some d, w2)))))"

text \<open>
  \<^verbatim>\<open>generate_single_image\<close>: print the banner, run the body; the handler
  \<^verbatim>\<open>except Exception\<close> prints \<^verbatim>\<open>document.random_seed\<close> and raises the exception again.
  Reading \<^verbatim>\<open>document\<close> while it is unbound raises \<^verbatim>\<open>UnboundLocalError\<close> from inside
  the handler.
\<close>

definition generate_single_image :: "job_env \<Rightarrow> fn_args \<Rightarrow> world \<Rightarrow> (exn + unit) \<times> world" where
  "generate_single_image E fa w0 =
     (case try_body E fa (print (''Generating image #'' @ py_str (iter fa + 1)) w0) of
        (Inr u, dv, w) \<Rightarrow> (Inr (), w)
      | (Inl e, dv, w) \<Rightarrow>
          if is_Exception e then
            (case dv of
               None \<Rightarrow> (Inl UnboundLocalError, w)
             | Some d \<Rightarrow> (Inl e, print (py_str (random_seed d)) w))
          else (Inl e, w))"

section \<open>The orchestrator\<close>

text \<open>
  The list handed to \<^verbatim>\<open>pool.map\<close>: one dictionary per element of
  \<^verbatim>\<open>range(args.output_count)\<close>.
\<close>

definition job_list :: "namespace \<Rightarrow> fn_args list" where
  "job_list a = map (\<lambda>x. \<lparr>iter = x, args = a\<rparr>) [0..output_count a - 1]"

text \<open>
  \<^verbatim>\<open>multiprocessing.Pool\<close> is library code that runs worker processes; \<open>main\<close> takes
  its \<^verbatim>\<open>map\<close> as the parameter \<open>pool_map\<close>. The environment of job \<open>i\<close> is \<open>envs i\<close>.
\<close>

type_synonym pool_map =
  "(fn_args \<Rightarrow> world \<Rightarrow> (exn + unit) \<times> world) \<Rightarrow> fn_args list \<Rightarrow> world
     \<Rightarrow> (exn + unit list) \<times> world"

definition main :: "pool_map \<Rightarrow> (int \<Rightarrow> job_env) \<Rightarrow> nat \<Rightarrow> cmdline \<Rightarrow> world \<Rightarrow> (exn + unit) \<times> world" where
  "main pm envs r cl w0 =
     (case parse_args r cl of
        Inl e \<Rightarrow> (Inl e, w0)
      | Inr a \<Rightarrow>
          (case pm (\<lambda>fa. generate_single_image (envs (iter fa)) fa) (job_list a)
                  (print (''Generating '' @ py_str (output_count a) @ '' images in '' @ output_dir a) w0) of
             (Inl e, w) \<Rightarrow> (Inl e, w)
           | (Inr rs, w) \<Rightarrow> (Inr (), w)))"

text \<open>
  The simplest pool, used to run examples: it applies the function to the jobs in list
  order in one process, and raises the first exception once every job has been applied.
\<close>

fun inline_pool_map :: pool_map where
  "inline_pool_map f [] w = (Inr [], w)"
| "inline_pool_map f (j # js) w =
     (case f j w of
        (r, w1) \<Rightarrow>
          (case inline_pool_map f js w1 of
             (rs, w2) \<Rightarrow>
               (case r of
                  Inl e \<Rightarrow> (Inl e, w2)
                | Inr u \<Rightarrow> (case rs of Inl e' \<Rightarrow> (Inl e', w2) | Inr us \<Rightarrow> (Inr (u # us), w2)))))"

section \<open>The claims as predicates, and example inputs\<close>

text \<open>
  The level validator's claim speaks of inputs that are integers in [1,5] and of the
  error raised for invalid levels. An input counts as such an integer when it denotes one.
\<close>

definition integer_in_1_5 :: "pyval \<Rightarrow> bool" where
  "integer_in_1_5 v = (case denotes v of None \<Rightarrow> False | Some n \<Rightarrow> 1 \<le> n \<and> n \<le> 5)"

definition raises_invalid_level :: "pyval \<Rightarrow> bool" where
  "raises_invalid_level v = (check_level v = Inl (ArgumentTypeError level_msg))"

text \<open>
  The pairing claim for one job: after the job, the image of its document is among the
  files exactly when the ground truth of its document is.
\<close>

definition pair_together :: "job_env \<Rightarrow> fn_args \<Rightarrow> world \<Rightarrow> bool" where
  "pair_together E fa w =
     (case generate_single_image E fa w of
        (r, w') \<Rightarrow>
          (Image (output_dir (args fa)) (seed_draw E) \<in> set (files w')) =
          (GroundTruth (output_dir (args fa)) (seed_draw E) \<in> set (files w')))"

text \<open>
  Strings of decimal digits and the number they stand for, to relate \<open>py_str\<close> and
  \<open>int_of_str\<close>.
\<close>

definition is_decimal :: "string \<Rightarrow> bool" where
  "is_decimal s = (s \<noteq> [] \<and> (\<forall>c \<in> set s. py_isdigit c \<and> \<not> py_isspace c \<and> c \<noteq> CHR ''-'' \<and> c \<noteq> CHR ''+''))"

definition decimal_value :: "int \<Rightarrow> string \<Rightarrow> int" where
  "decimal_value acc s = foldl (\<lambda>a c. 10 * a + digit_val c) acc s"

text \<open>
  Example inputs: an empty world; a job environment in which nothing fails, one whose
  constructor raises and one whose \<^verbatim>\<open>save_ground_truth\<close> raises; the command line
  \<^verbatim>\<open>3 2 3 --output_dir out\<close> with its namespace; the empty command line.
\<close>

definition w_init :: world where
  "w_init = \<lparr>stdout = [], files = []\<rparr>"

definition healthy :: "int \<Rightarrow> job_env" where
  "healthy i = \<lparr>seed_draw = 1000 + i, fault = (\<lambda>s. None)\<rparr>"

definition ctor_fails :: job_env where
  "ctor_fails = \<lparr>seed_draw = 99585,
     fault = (\<lambda>s. if s = Construct then Some (OtherException ''SynthesisError'') else None)\<rparr>"

definition mask_fails :: job_env where
  "mask_fails = \<lparr>seed_draw = 99585,
     fault = (\<lambda>s. if s = SaveGroundTruth then Some (OtherException ''PersistenceError'') else None)\<rparr>"

definition cl_323 :: cmdline where
  "cl_323 = \<lparr>positionals = [''3'', ''2'', ''3''], output_dir_opt = Some ''out''\<rparr>"

definition a_323 :: namespace where
  "a_323 = \<lparr>output_count = 3, stain_level = 2, text_noise_level = 3, output_dir = ''out''\<rparr>"

definition cl_default :: cmdline where
  "cl_default = \<lparr>positionals = [], output_dir_opt = None\<rparr>"

section \<open>Properties of the validators\<close>

lemma check_level_PyInt:
  "check_level (PyInt n) = (if n < 1 \<or> n > 5 then Inl (ArgumentTypeError level_msg) else Inr n)"
  by (simp add: check_level_def)

lemma check_output_count_PyInt:
  "check_output_count (PyInt n) = (if n < 1 then Inl (ArgumentTypeError count_msg) else Inr n)"
  by (simp add: check_output_count_def)

lemma check_level_Inr_range: "check_level x = Inr v \<Longrightarrow> 1 \<le> v \<and> v \<le> 5"
  by (auto simp: check_level_def split: sum.splits if_splits)

lemma check_output_count_Inr_range: "check_output_count x = Inr n \<Longrightarrow> 1 \<le> n"
  by (auto simp: check_output_count_def split: sum.splits if_splits)

text \<open>
  Claim C10. Both validators are the identity on valid integers: \<open>check_level v = v\<close> for
  every integer \<open>v\<close> in [1,5] and \<open>check_output_count n = n\<close> for every integer \<open>n \<ge> 1\<close>.
  Each is idempotent on what it accepts: whatever input was accepted, validating the
  returned integer again returns it unchanged. The validators have no state argument
  because the source functions touch none.
\<close>

theorem validators_identity_idempotent:
  "(1 \<le> v \<and> v \<le> 5 \<longrightarrow> check_level (PyInt v) = Inr v) \<and>
   (1 \<le> n \<longrightarrow> check_output_count (PyInt n) = Inr n) \<and>
   (check_level x = Inr v' \<longrightarrow> check_level (PyInt v') = Inr v') \<and>
   (check_output_count y = Inr n' \<longrightarrow> check_output_count (PyInt n') = Inr n')"
proof -
  have lvl: "check_level x = Inr v' \<longrightarrow> check_level (PyInt v') = Inr v'"
    using check_level_Inr_range [of x v'] by (auto simp: check_level_PyInt)
  have cnt: "check_output_count y = Inr n' \<longrightarrow> check_output_count (PyInt n') = Inr n'"
    using check_output_count_Inr_range [of y n'] by (auto simp: check_output_count_PyInt)
  show ?thesis
    using lvl cnt by (simp add: check_level_PyInt check_output_count_PyInt)
qed

theorem validators_identity_idempotent_witness:
  "check_level (PyInt 3) = Inr 3 \<and> check_output_count (PyInt 7) = Inr 7 \<and>
   check_level (PyInt 5) = Inr 5 \<and> check_output_count (PyInt 1) = Inr 1"
proof -
  have a: "check_level (PyInt 5) = Inr 5"
    by (simp add: check_level_def)
  have b: "check_output_count (PyInt 1) = Inr 1"
    by (simp add: check_output_count_def)
  show ?thesis
    using validators_identity_idempotent [of 3 7 "PyInt 5" 5 "PyInt 1" 1] a b by simp
qed

section \<open>Evaluating the builtins\<close>

text \<open>
  The equation of \<open>str_nat\<close> is split into its two branches, so that the simplifier
  unfolds it on numerals without looping.
\<close>

lemma str_nat_small: "n < 10 \<Longrightarrow> str_nat n = [digit_char n]"
  by (simp add: str_nat.simps)

lemma str_nat_large:
  "\<not> n < 10 \<Longrightarrow> str_nat n = str_nat (n div 10) @ [digit_char (n mod 10)]"
  by (subst str_nat.simps) simp

lemmas int_of_str_eval =
  int_of_str_def strip_ws_def py_isspace_def parse_unsigned_def py_isdigit_def digit_val_def

lemmas py_str_eval = py_str_def str_nat_small str_nat_large digit_char_def

section \<open>Errors of the validators and of argument parsing\<close>

lemma check_level_errors:
  "check_level x = Inl e \<Longrightarrow> e = ValueError \<or> e = ArgumentTypeError level_msg"
  by (cases x) (auto simp: check_level_def split: option.splits if_splits)

lemma check_output_count_errors:
  "check_output_count x = Inl e \<Longrightarrow> e = ValueError \<or> e = ArgumentTypeError count_msg"
  by (cases x) (auto simp: check_output_count_def split: option.splits if_splits)

lemma positional_absent: "length ps \<le> i \<Longrightarrow> positional f d ps i = Inr d"
  by (simp add: positional_def)

lemma positional_level_Inl:
  "i < length ps \<Longrightarrow> check_level (PyStr (ps ! i)) = Inl e \<Longrightarrow>
   positional check_level d ps i = Inl (SystemExit 2)"
  using check_level_errors [of "PyStr (ps ! i)" e] by (auto simp: positional_def)

lemma positional_count_Inl:
  "i < length ps \<Longrightarrow> check_output_count (PyStr (ps ! i)) = Inl e \<Longrightarrow>
   positional check_output_count d ps i = Inl (SystemExit 2)"
  using check_output_count_errors [of "PyStr (ps ! i)" e] by (auto simp: positional_def)

lemma positional_Inl_exit:
  "positional check_level d ps i = Inl e \<Longrightarrow> e = SystemExit 2"
  "positional check_output_count d ps i = Inl e \<Longrightarrow> e = SystemExit 2"
  by (auto simp: positional_def split: if_splits sum.splits
       dest!: check_level_errors check_output_count_errors)

lemma parse_args_Inl_exit: "parse_args r cl = Inl e \<Longrightarrow> e = SystemExit 2"
  by (auto simp: parse_args_def split: sum.splits if_splits dest: positional_Inl_exit)

text \<open>
  Claim C8. When the positional arguments are omitted, the parsed values are
  \<open>output_count = 5\<close>, \<open>stain_level = 1\<close> and \<open>text_noise_level = 1\<close>. With an empty
  list of positionals all three defaults apply; when only the leading positionals are
  given and parsing succeeds, each omitted one has its default.
\<close>

theorem parse_args_defaults:
  "parse_args r \<lparr>positionals = [], output_dir_opt = od\<rparr> =
     Inr \<lparr>output_count = 5, stain_level = 1, text_noise_level = 1,
          output_dir = (case od of None \<Rightarrow> DEFAULT_DIR r | Some d \<Rightarrow> d)\<rparr> \<and>
   (parse_args r cl = Inr a \<longrightarrow>
      (length (positionals cl) < 1 \<longrightarrow> output_count a = 5) \<and>
      (length (positionals cl) < 2 \<longrightarrow> stain_level a = 1) \<and>
      (length (positionals cl) < 3 \<longrightarrow> text_noise_level a = 1))"
  by (auto simp: parse_args_def positional_def split: sum.splits if_splits)

theorem parse_args_defaults_witness:
  "parse_args 12345 \<lparr>positionals = [''7''], output_dir_opt = Some ''out''\<rparr> =
     Inr \<lparr>output_count = 7, stain_level = 1, text_noise_level = 1, output_dir = ''out''\<rparr>"
proof -
  have p: "parse_args 12345 \<lparr>positionals = [''7''], output_dir_opt = Some ''out''\<rparr> =
     Inr \<lparr>output_count = 7, stain_level = 1, text_noise_level = 1, output_dir = ''out''\<rparr>"
    by (simp add: parse_args_def positional_def check_output_count_def int_of_str_eval)
  show ?thesis
    using parse_args_defaults [of 12345 None "\<lparr>positionals = [''7''], output_dir_opt = Some ''out''\<rparr>"
        "\<lparr>output_count = 7, stain_level = 1, text_noise_level = 1, output_dir = ''out''\<rparr>"] p
    by simp
qed

text \<open>
  Claim C4 says that the level validator raises the invalid-level error
  (\<^verbatim>\<open>ArgumentTypeError\<close> with the level message) exactly when its input is not an integer
  in [1,5]. The string \<^verbatim>\<open>abc\<close> is not such an integer, and the validator raises the
  \<^verbatim>\<open>ValueError\<close> of \<^verbatim>\<open>int\<close> on it, not that error.
\<close>

theorem check_level_nonnumeric_counterexample:
  "\<not> (raises_invalid_level (PyStr ''abc'') \<longleftrightarrow> \<not> integer_in_1_5 (PyStr ''abc''))"
  by (simp add: raises_invalid_level_def integer_in_1_5_def check_level_def int_of_str_eval)

text \<open>
  Claim C4, amended. The level validator raises exactly when its input does not denote an
  integer in [1,5]: \<^verbatim>\<open>ArgumentTypeError\<close> with the level message when the input denotes
  an integer outside [1,5], and the \<^verbatim>\<open>ValueError\<close> of \<^verbatim>\<open>int\<close> when the input is a string
  that is no integer literal. When the input denotes an integer in [1,5] it returns that
  integer. The parser uses this validator for both \<open>stain_level\<close> and
  \<open>text_noise_level\<close>: a parsed namespace has both levels in [1,5], and a level string the
  validator rejects, in either position, makes parsing end with exit status 2.
\<close>

theorem check_level_cases:
  "check_level v =
     (case denotes v of
        None \<Rightarrow> Inl ValueError
      | Some n \<Rightarrow> if 1 \<le> n \<and> n \<le> 5 then Inr n else Inl (ArgumentTypeError level_msg)) \<and>
   (parse_args r cl = Inr a \<longrightarrow>
      1 \<le> stain_level a \<and> stain_level a \<le> 5 \<and>
      1 \<le> text_noise_level a \<and> text_noise_level a \<le> 5) \<and>
   (i \<in> {1, 2} \<and> i < length (positionals cl') \<and>
    check_level (PyStr (positionals cl' ! i)) = Inl e \<longrightarrow>
      parse_args r' cl' = Inl (SystemExit 2))"
proof -
  have c1: "check_level v =
     (case denotes v of
        None \<Rightarrow> Inl ValueError
      | Some n \<Rightarrow> if 1 \<le> n \<and> n \<le> 5 then Inr n else Inl (ArgumentTypeError level_msg))"
    by (cases v) (auto simp: check_level_def split: option.splits)
  have c2: "parse_args r cl = Inr a \<longrightarrow>
      1 \<le> stain_level a \<and> stain_level a \<le> 5 \<and>
      1 \<le> text_noise_level a \<and> text_noise_level a \<le> 5"
    by (auto simp: parse_args_def positional_def split: sum.splits if_splits
         dest: check_level_Inr_range)
  have c3: "i \<in> {1, 2} \<and> i < length (positionals cl') \<and>
    check_level (PyStr (positionals cl' ! i)) = Inl e \<longrightarrow>
      parse_args r' cl' = Inl (SystemExit 2)"
  proof (intro impI, elim conjE)
    assume i: "i \<in> {1, 2}" "i < length (positionals cl')"
      and f: "check_level (PyStr (positionals cl' ! i)) = Inl e"
    have p: "positional check_level 1 (positionals cl') i = Inl (SystemExit 2)"
      using positional_level_Inl [OF i(2) f] .
    show "parse_args r' cl' = Inl (SystemExit 2)"
      using i(1) p
      by (auto simp: parse_args_def split: sum.splits dest: positional_Inl_exit)
  qed
  show ?thesis using c1 c2 c3 by blast
qed

theorem check_level_cases_witness:
  "check_level (PyStr ''3'') = Inr 3 \<and>
   parse_args 12345 \<lparr>positionals = [''2'', ''4'', ''5''], output_dir_opt = None\<rparr> =
     Inr \<lparr>output_count = 2, stain_level = 4, text_noise_level = 5, output_dir = DEFAULT_DIR 12345\<rparr> \<and>
   parse_args 12345 \<lparr>positionals = [''2'', ''4'', ''6''], output_dir_opt = None\<rparr> = Inl (SystemExit 2)"
proof -
  have d: "denotes (PyStr ''3'') = Some 3"
    by (simp add: int_of_str_eval)
  have ok: "parse_args 12345 \<lparr>positionals = [''2'', ''4'', ''5''], output_dir_opt = None\<rparr> =
     Inr \<lparr>output_count = 2, stain_level = 4, text_noise_level = 5, output_dir = DEFAULT_DIR 12345\<rparr>"
    by (simp add: parse_args_def positional_def check_output_count_def check_level_def int_of_str_eval)
  have bad: "(2::nat) \<in> {1, 2} \<and>
      2 < length (positionals \<lparr>positionals = [''2'', ''4'', ''6''], output_dir_opt = None\<rparr>) \<and>
      check_level (PyStr (positionals \<lparr>positionals = [''2'', ''4'', ''6''], output_dir_opt = None\<rparr> ! 2))
        = Inl (ArgumentTypeError level_msg)"
    by (simp add: check_level_def int_of_str_eval)
  show ?thesis
    using check_level_cases [of "PyStr ''3''" 12345
        "\<lparr>positionals = [''2'', ''4'', ''5''], output_dir_opt = None\<rparr>"
        "\<lparr>output_count = 2, stain_level = 4, text_noise_level = 5, output_dir = DEFAULT_DIR 12345\<rparr>"
        2 "\<lparr>positionals = [''2'', ''4'', ''6''], output_dir_opt = None\<rparr>"
        "ArgumentTypeError level_msg" 12345] d ok bad
    by simp
qed

section \<open>The count validator and the start of the batch\<close>

lemma main_parse_error: "parse_args r cl = Inl e \<Longrightarrow> main pm envs r cl w = (Inl e, w)"
  by (simp add: main_def)

lemma parse_args_count_Inl:
  assumes "positionals cl \<noteq> []"
    and "check_output_count (PyStr (positionals cl ! 0)) = Inl e"
  shows "parse_args r cl = Inl (SystemExit 2)"
proof -
  have "0 < length (positionals cl)" using assms(1) by simp
  then have "positional check_output_count 5 (positionals cl) 0 = Inl (SystemExit 2)"
    using assms(2) by (rule positional_count_Inl)
  then show ?thesis by (simp add: parse_args_def)
qed

text \<open>
  Claim C5. The count validator raises the count-validation error (\<^verbatim>\<open>ArgumentTypeError\<close>
  with the count message) exactly when its input denotes an integer below 1, and returns
  \<open>n\<close> for every integer \<open>n \<ge> 1\<close>, given as an integer or as a string that denotes it.
  The error arises while the arguments are parsed: when the validator rejects the count
  given on the command line, \<open>main\<close> ends with exit status 2 whatever the pool is, with
  the world unchanged, so no job was handed to the pool.
\<close>

theorem check_output_count_cases:
  "(check_output_count v = Inl (ArgumentTypeError count_msg) \<longleftrightarrow>
      (case denotes v of None \<Rightarrow> False | Some n \<Rightarrow> n < 1)) \<and>
   (1 \<le> n \<longrightarrow> check_output_count (PyInt n) = Inr n) \<and>
   (denotes v' = Some n' \<and> 1 \<le> n' \<longrightarrow> check_output_count v' = Inr n') \<and>
   (positionals cl \<noteq> [] \<and> check_output_count (PyStr (positionals cl ! 0)) = Inl e \<longrightarrow>
      main pm envs r cl w = (Inl (SystemExit 2), w))"
proof -
  have c1: "check_output_count v = Inl (ArgumentTypeError count_msg) \<longleftrightarrow>
      (case denotes v of None \<Rightarrow> False | Some n \<Rightarrow> n < 1)"
    by (cases v) (auto simp: check_output_count_def split: option.splits)
  have c3: "denotes v' = Some n' \<and> 1 \<le> n' \<longrightarrow> check_output_count v' = Inr n'"
    by (cases v') (auto simp: check_output_count_def split: option.splits)
  have c4: "positionals cl \<noteq> [] \<and> check_output_count (PyStr (positionals cl ! 0)) = Inl e \<longrightarrow>
      main pm envs r cl w = (Inl (SystemExit 2), w)"
    using parse_args_count_Inl [of cl e r] main_parse_error [of r cl "SystemExit 2" pm envs w]
    by blast
  show ?thesis
    using c1 c3 c4 by (simp add: check_output_count_PyInt)
qed

theorem check_output_count_cases_witness:
  "check_output_count (PyStr ''0'') = Inl (ArgumentTypeError count_msg) \<and>
   check_output_count (PyInt 4) = Inr 4 \<and>
   check_output_count (PyStr ''12'') = Inr 12 \<and>
   main inline_pool_map healthy 12345 \<lparr>positionals = [''-1'', ''2''], output_dir_opt = None\<rparr> w_init
     = (Inl (SystemExit 2), w_init)"
proof -
  have d0: "denotes (PyStr ''0'') = Some 0"
    by (simp add: int_of_str_eval)
  have d12: "denotes (PyStr ''12'') = Some 12 \<and> (1::int) \<le> 12"
    by (simp add: int_of_str_eval)
  have neg: "positionals \<lparr>positionals = [''-1'', ''2''], output_dir_opt = None\<rparr> \<noteq> [] \<and>
      check_output_count (PyStr (positionals \<lparr>positionals = [''-1'', ''2''], output_dir_opt = None\<rparr> ! 0))
        = Inl (ArgumentTypeError count_msg)"
    by (simp add: check_output_count_def int_of_str_eval)
  show ?thesis
    using check_output_count_cases [of "PyStr ''0''" 4 "PyStr ''12''" 12
        "\<lparr>positionals = [''-1'', ''2''], output_dir_opt = None\<rparr>" "ArgumentTypeError count_msg"
        inline_pool_map healthy 12345 w_init] d0 d12 neg
    by simp
qed

section \<open>The list of jobs\<close>

lemma parse_args_output_count_pos: "parse_args r cl = Inr a \<Longrightarrow> 1 \<le> output_count a"
  by (auto simp: parse_args_def positional_def split: sum.splits if_splits
       dest: check_output_count_Inr_range)

lemma parse_args_first_positional:
  "parse_args r cl = Inr a \<Longrightarrow> positionals cl \<noteq> [] \<Longrightarrow>
   denotes (PyStr (positionals cl ! 0)) = Some (output_count a)"
  by (auto simp: parse_args_def positional_def check_output_count_def
       split: sum.splits if_splits option.splits)

lemma length_job_list: "length (job_list a) = nat (output_count a)"
  by (simp add: job_list_def)

lemma nth_job_list:
  "i < nat (output_count a) \<Longrightarrow> job_list a ! i = \<lparr>iter = int i, args = a\<rparr>"
  by (simp add: job_list_def)

lemma args_job_list: "j \<in> set (job_list a) \<Longrightarrow> args j = a"
  by (auto simp: job_list_def)

text \<open>
  Claim C7. For a command line that parses to a namespace with count \<open>N\<close> (which is at
  least 1, and is the number the first positional denotes when it is given), \<open>main\<close>
  builds exactly \<open>N\<close> jobs, the \<open>i\<close>-th with index \<open>i\<close> for \<open>i = 0, \<dots>, N - 1\<close>, every one
  carrying the stain level and the text-noise level of the batch, and hands this list,
  with \<open>generate_single_image\<close>, to the pool's \<^verbatim>\<open>map\<close>.
\<close>

theorem main_builds_one_job_per_index:
  assumes "parse_args r cl = Inr a"
  shows "1 \<le> output_count a \<and>
     (positionals cl \<noteq> [] \<longrightarrow> denotes (PyStr (positionals cl ! 0)) = Some (output_count a)) \<and>
     length (job_list a) = nat (output_count a) \<and>
     (\<forall>i < nat (output_count a). job_list a ! i = \<lparr>iter = int i, args = a\<rparr>) \<and>
     (\<forall>j \<in> set (job_list a).
        stain_level (args j) = stain_level a \<and> text_noise_level (args j) = text_noise_level a) \<and>
     main pm envs r cl w =
       (case pm (\<lambda>fa. generate_single_image (envs (iter fa)) fa) (job_list a)
               (print (''Generating '' @ py_str (output_count a) @ '' images in '' @ output_dir a) w) of
          (Inl e, w') \<Rightarrow> (Inl e, w')
        | (Inr rs, w') \<Rightarrow> (Inr (), w'))"
proof -
  have m: "main pm envs r cl w =
       (case pm (\<lambda>fa. generate_single_image (envs (iter fa)) fa) (job_list a)
               (print (''Generating '' @ py_str (output_count a) @ '' images in '' @ output_dir a) w) of
          (Inl e, w') \<Rightarrow> (Inl e, w')
        | (Inr rs, w') \<Rightarrow> (Inr (), w'))"
    using assms by (simp add: main_def)
  have f: "positionals cl \<noteq> [] \<longrightarrow> denotes (PyStr (positionals cl ! 0)) = Some (output_count a)"
    using parse_args_first_positional [OF assms] by blast
  have n: "\<forall>i < nat (output_count a). job_list a ! i = \<lparr>iter = int i, args = a\<rparr>"
    by (simp add: nth_job_list)
  have l: "\<forall>j \<in> set (job_list a).
        stain_level (args j) = stain_level a \<and> text_noise_level (args j) = text_noise_level a"
    by (simp add: args_job_list)
  from parse_args_output_count_pos [OF assms] f length_job_list n l m
  show ?thesis by (intro conjI)
qed

lemma parse_cl_323: "parse_args r cl_323 = Inr a_323"
  by (simp add: cl_323_def a_323_def parse_args_def positional_def check_output_count_def
      check_level_def int_of_str_eval)

lemma job_list_323:
  "job_list a_323 = [\<lparr>iter = 0, args = a_323\<rparr>, \<lparr>iter = 1, args = a_323\<rparr>, \<lparr>iter = 2, args = a_323\<rparr>]"
proof -
  have "[0..(2::int)] = [0, 1, 2]"
    by (simp add: upto_rec1)
  then show ?thesis
    by (simp add: job_list_def a_323_def)
qed

lemma gsi_healthy:
  "generate_single_image (healthy i) \<lparr>iter = k, args = a\<rparr> w =
     (Inr (), \<lparr>stdout = stdout w @ [''Generating image #'' @ py_str (k + 1)],
              files = files w @ [Image (output_dir a) (1000 + i), GroundTruth (output_dir a) (1000 + i)]\<rparr>)"
  by (simp add: generate_single_image_def try_body_def Document_def create_def save_def
      save_ground_truth_def healthy_def print_def)

theorem main_builds_one_job_per_index_witness:
  "parse_args 12345 cl_323 = Inr a_323 \<and>
   job_list a_323 = [\<lparr>iter = 0, args = a_323\<rparr>, \<lparr>iter = 1, args = a_323\<rparr>, \<lparr>iter = 2, args = a_323\<rparr>] \<and>
   main inline_pool_map healthy 12345 cl_323 w_init =
     (Inr (), \<lparr>stdout = [''Generating 3 images in out'', ''Generating image #1'',
                          ''Generating image #2'', ''Generating image #3''],
              files = [Image ''out'' 1000, GroundTruth ''out'' 1000,
                       Image ''out'' 1001, GroundTruth ''out'' 1001,
                       Image ''out'' 1002, GroundTruth ''out'' 1002]\<rparr>)"
proof -
  have p: "parse_args 12345 cl_323 = Inr a_323"
    by (rule parse_cl_323)
  have run: "inline_pool_map (\<lambda>fa. generate_single_image (healthy (iter fa)) fa) (job_list a_323)
       (print (''Generating '' @ py_str (output_count a_323) @ '' images in '' @ output_dir a_323) w_init) =
     (Inr [(), (), ()], \<lparr>stdout = [''Generating 3 images in out'', ''Generating image #1'',
                          ''Generating image #2'', ''Generating image #3''],
              files = [Image ''out'' 1000, GroundTruth ''out'' 1000,
                       Image ''out'' 1001, GroundTruth ''out'' 1001,
                       Image ''out'' 1002, GroundTruth ''out'' 1002]\<rparr>)"
    by (simp only: job_list_323) (simp add: gsi_healthy print_def w_init_def a_323_def py_str_eval)
  show ?thesis
    using main_builds_one_job_per_index [OF p, of inline_pool_map healthy w_init] run job_list_323
    by (simp add: p)
qed

section \<open>One job: the handler and the artifacts\<close>

lemmas job_eval =
  generate_single_image_def try_body_def Document_def create_def save_def
  save_ground_truth_def print_def

text \<open>
  Claim C2 says that for an exception raised anywhere in a job, document construction
  included, the handler reports the seed of the document and raises the original
  exception again. Evaluated on a job whose constructor raises \<^verbatim>\<open>SynthesisError\<close>: the
  variable \<^verbatim>\<open>document\<close> is unbound in the handler, so the job raises
  \<^verbatim>\<open>UnboundLocalError\<close> in place of the original exception and prints no seed after
  the banner.
\<close>

theorem constructor_failure_masks_exception:
  "generate_single_image ctor_fails \<lparr>iter = 1, args = a_323\<rparr> w_init =
     (Inl UnboundLocalError, \<lparr>stdout = [''Generating image #2''], files = []\<rparr>)"
  by (simp add: job_eval ctor_fails_def w_init_def py_str_eval)

text \<open>
  Once the constructor has returned, the handler does what it is written for: an
  exception raised by \<^verbatim>\<open>create\<close>, \<^verbatim>\<open>save\<close> or \<^verbatim>\<open>save_ground_truth\<close> that derives from
  \<^verbatim>\<open>Exception\<close> is raised again after the seed of the document has been printed. An
  exception that derives from \<^verbatim>\<open>BaseException\<close> only passes the handler by.
\<close>

lemma handler_reports_seed:
  assumes "fault E Construct = None"
    and "generate_single_image E fa w = (Inl e, w')"
    and "is_Exception e"
  shows "stdout w' = stdout w @ [''Generating image #'' @ py_str (iter fa + 1), py_str (seed_draw E)]
     \<and> (fault E Create = Some e \<or> fault E Save = Some e \<or> fault E SaveGroundTruth = Some e)"
  using assms
  by (auto simp: job_eval split: option.splits if_splits)

lemma handler_skips_base_exceptions:
  assumes "generate_single_image E fa w = (Inl e, w')"
    and "\<not> is_Exception e"
  shows "stdout w' = stdout w @ [''Generating image #'' @ py_str (iter fa + 1)]"
  using assms
  by (auto simp: job_eval split: option.splits if_splits)

text \<open>
  Claim C3 says that a job never writes the image without the mask or the mask without
  the image. A job whose \<^verbatim>\<open>save_ground_truth\<close> raises after \<^verbatim>\<open>save\<close> has returned
  leaves the image written and the mask not.
\<close>

theorem image_without_mask_counterexample:
  "\<not> pair_together mask_fails \<lparr>iter = 0, args = a_323\<rparr> w_init"
  by (simp add: pair_together_def job_eval mask_fails_def w_init_def a_323_def)

lemma gsi_mask_fails:
  "generate_single_image mask_fails \<lparr>iter = 0, args = a_323\<rparr> w_init =
     (Inl (OtherException ''PersistenceError''),
      \<lparr>stdout = [''Generating image #1'', ''99585''], files = [Image ''out'' 99585]\<rparr>)"
  by (simp add: job_eval mask_fails_def w_init_def a_323_def py_str_eval)

text \<open>
  Claim C3, amended. A job that returns normally has written the image and then the mask
  of its document, under the same base directory and seed, and nothing else. A job that
  raises has written nothing, or the image alone; the image alone is written exactly
  when \<^verbatim>\<open>save_ground_truth\<close> raises after construction, \<^verbatim>\<open>create\<close> and \<^verbatim>\<open>save\<close> have
  succeeded. The mask is never written without the image.
\<close>

theorem job_writes_image_then_mask:
  assumes "generate_single_image E fa w = (r, w')"
  shows "(r = Inr () \<longrightarrow>
            files w' = files w @ [Image (output_dir (args fa)) (seed_draw E),
                                  GroundTruth (output_dir (args fa)) (seed_draw E)]) \<and>
         (r \<noteq> Inr () \<longrightarrow>
            files w' = files w \<or> files w' = files w @ [Image (output_dir (args fa)) (seed_draw E)]) \<and>
         (files w' = files w @ [Image (output_dir (args fa)) (seed_draw E)] \<longleftrightarrow>
            fault E Construct = None \<and> fault E Create = None \<and> fault E Save = None \<and>
            fault E SaveGroundTruth \<noteq> None)"
  using assms
  by (auto simp: job_eval split: option.splits if_splits)

theorem job_writes_image_then_mask_witness:
  "files (snd (generate_single_image (healthy 0) \<lparr>iter = 0, args = a_323\<rparr> w_init)) =
     [Image ''out'' 1000, GroundTruth ''out'' 1000] \<and>
   files (snd (generate_single_image mask_fails \<lparr>iter = 0, args = a_323\<rparr> w_init)) =
     [Image ''out'' 99585]"
proof -
  have ok: "generate_single_image (healthy 0) \<lparr>iter = 0, args = a_323\<rparr> w_init =
      (Inr (), snd (generate_single_image (healthy 0) \<lparr>iter = 0, args = a_323\<rparr> w_init))"
    by (simp add: gsi_healthy)
  have bad: "generate_single_image mask_fails \<lparr>iter = 0, args = a_323\<rparr> w_init =
      (Inl (OtherException ''PersistenceError''),
       snd (generate_single_image mask_fails \<lparr>iter = 0, args = a_323\<rparr> w_init))"
    by (simp add: gsi_mask_fails)
  have f: "fault mask_fails Construct = None \<and> fault mask_fails Create = None \<and>
      fault mask_fails Save = None \<and> fault mask_fails SaveGroundTruth \<noteq> None"
    by (simp add: mask_fails_def)
  show ?thesis
    using job_writes_image_then_mask [OF ok] job_writes_image_then_mask [OF bad] f
    by (simp add: w_init_def a_323_def healthy_def mask_fails_def)
qed

section \<open>The default output directory\<close>

text \<open>\<^verbatim>\<open>int\<close> reads back what \<^verbatim>\<open>str\<close> prints, so \<^verbatim>\<open>str\<close> is injective on integers.\<close>

lemma digit_char_props:
  assumes "d < 10"
  shows "py_isdigit (digit_char d)" and "digit_val (digit_char d) = int d"
    and "\<not> py_isspace (digit_char d)"
    and "digit_char d \<noteq> CHR ''-''" and "digit_char d \<noteq> CHR ''+''"
proof -
  have "d \<in> {0, 1, 2, 3, 4, 5, 6, 7, 8, 9}"
    using assms by auto
  then show "py_isdigit (digit_char d)" and "digit_val (digit_char d) = int d"
    and "\<not> py_isspace (digit_char d)"
    and "digit_char d \<noteq> CHR ''-''" and "digit_char d \<noteq> CHR ''+''"
    by (auto simp: digit_char_def py_isdigit_def digit_val_def py_isspace_def)
qed

lemma is_decimal_str_nat: "is_decimal (str_nat n)"
proof (induction n rule: str_nat.induct)
  case (1 n)
  show ?case
  proof (cases "n < 10")
    case True
    then show ?thesis
      by (simp add: str_nat_small is_decimal_def digit_char_props)
  next
    case False
    then have "is_decimal (str_nat (n div 10))" by (rule "1.IH")
    moreover have "n mod 10 < 10" by simp
    ultimately show ?thesis
      using False by (auto simp: str_nat_large is_decimal_def digit_char_props)
  qed
qed

lemma parse_digits_all_digits:
  "\<forall>c \<in> set s. py_isdigit c \<Longrightarrow> parse_digits s acc = Some (decimal_value acc s)"
  by (induction s arbitrary: acc) (simp_all add: decimal_value_def)

lemma decimal_value_str_nat: "decimal_value 0 (str_nat n) = int n"
proof (induction n rule: str_nat.induct)
  case (1 n)
  show ?case
  proof (cases "n < 10")
    case True
    then show ?thesis
      by (simp add: str_nat_small decimal_value_def digit_char_props)
  next
    case False
    then have "decimal_value 0 (str_nat (n div 10)) = int (n div 10)" by (rule "1.IH")
    moreover have "digit_val (digit_char (n mod 10)) = int (n mod 10)"
      by (simp add: digit_char_props)
    ultimately have "decimal_value 0 (str_nat n) = 10 * int (n div 10) + int (n mod 10)"
      using False by (simp add: str_nat_large decimal_value_def)
    also have "\<dots> = int n"
      by (simp add: zdiv_int zmod_int)
    finally show ?thesis .
  qed
qed

lemma parse_unsigned_decimal:
  assumes "is_decimal s"
  shows "parse_unsigned s = Some (decimal_value 0 s)"
proof -
  obtain c cs where s: "s = c # cs"
    using assms by (cases s) (auto simp: is_decimal_def)
  have d: "\<forall>c \<in> set s. py_isdigit c"
    using assms by (simp add: is_decimal_def)
  then have "py_isdigit c" using s by simp
  then show ?thesis
    using parse_digits_all_digits [OF d, of 0] s by (simp add: parse_unsigned_def)
qed

lemma dropWhile_none: "xs = [] \<or> \<not> P (hd xs) \<Longrightarrow> dropWhile P xs = xs"
  by (cases xs) auto

lemma strip_ws_id:
  assumes "s \<noteq> []" and "\<not> py_isspace (hd s)" and "\<not> py_isspace (last s)"
  shows "strip_ws s = s"
proof -
  have a: "dropWhile py_isspace s = s"
    using assms(2) by (simp add: dropWhile_none)
  have "hd (rev s) = last s"
    using assms(1) by (simp add: hd_rev)
  then have "dropWhile py_isspace (rev s) = rev s"
    using assms(3) by (simp add: dropWhile_none)
  then show ?thesis
    using a by (simp add: strip_ws_def)
qed

lemma int_of_str_decimal:
  assumes "is_decimal s"
  shows "int_of_str s = Some (decimal_value 0 s)"
    and "int_of_str (CHR ''-'' # s) = Some (- decimal_value 0 s)"
proof -
  obtain c cs where s: "s = c # cs"
    using assms by (cases s) (auto simp: is_decimal_def)
  have ne: "s \<noteq> []" and hd: "hd s \<in> set s" and la: "last s \<in> set s"
    using s by auto
  have c: "c \<noteq> CHR ''-''" "c \<noteq> CHR ''+''"
    using assms s by (auto simp: is_decimal_def)
  have sp: "\<not> py_isspace (hd s)" "\<not> py_isspace (last s)"
    using assms hd la by (auto simp: is_decimal_def)
  have "strip_ws s = s"
    using ne sp by (rule strip_ws_id)
  then show "int_of_str s = Some (decimal_value 0 s)"
    using parse_unsigned_decimal [OF assms] s c by (simp add: int_of_str_def)
  have "strip_ws (CHR ''-'' # s) = CHR ''-'' # s"
    using sp(2) ne by (intro strip_ws_id) (simp_all add: py_isspace_def)
  then show "int_of_str (CHR ''-'' # s) = Some (- decimal_value 0 s)"
    using parse_unsigned_decimal [OF assms] by (simp add: int_of_str_def)
qed

lemma int_of_str_py_str: "int_of_str (py_str i) = Some i"
  by (simp add: py_str_def int_of_str_decimal is_decimal_str_nat decimal_value_str_nat)

lemma py_str_inject: "py_str i = py_str j \<Longrightarrow> i = j"
proof -
  assume "py_str i = py_str j"
  then have "int_of_str (py_str i) = int_of_str (py_str j)" by simp
  then show "i = j" by (simp add: int_of_str_py_str)
qed

lemma parse_args_default_dir:
  "parse_args r cl = Inr a \<Longrightarrow> output_dir_opt cl = None \<Longrightarrow> output_dir a = DEFAULT_DIR r"
  by (auto simp: parse_args_def split: sum.splits if_splits)

lemma randint_default_range:
  "10000 \<le> randint 10000 100000 g \<and> randint 10000 100000 g \<le> 100000"
proof -
  have "g mod 90001 < 90001" by simp
  then show ?thesis
    by (simp add: randint_def)
qed

lemma randint_default_reaches:
  assumes "10000 \<le> n" and "n \<le> 100000"
  shows "randint 10000 100000 (nat (n - 10000)) = n"
proof -
  have "nat (n - 10000) < 90001"
    using assms by simp
  then have "nat (n - 10000) mod 90001 = nat (n - 10000)"
    by simp
  then show ?thesis
    using assms by (simp add: randint_def)
qed

lemma job_files_under_output_dir:
  assumes "generate_single_image E fa w = (res, w')"
  shows "take (length (files w)) (files w') = files w"
    and "\<forall>x \<in> set (drop (length (files w)) (files w')). artifact_dir x = output_dir (args fa)"
    and "res = Inr () \<longrightarrow>
           files w' = files w @ [Image (output_dir (args fa)) (seed_draw E),
                                 GroundTruth (output_dir (args fa)) (seed_draw E)]"
  using assms
  by (auto simp: job_eval split: option.splits if_splits)

text \<open>
  Claim C9. The default output directory is the string \<^verbatim>\<open>/data/synthetic_trial_\<close> followed
  by the decimal digits of the integer that \<^verbatim>\<open>random.randint(10000, 100000)\<close> returns;
  that integer lies between 10000 and 100000, and every integer of this range, both ends
  included, is the suffix for some state of the generator. The draw is made once, when
  the module is loaded: when \<^verbatim>\<open>--output_dir\<close> is absent, the namespace and every job
  of the batch carry this one directory, whatever a job writes it writes under this
  directory, and a job that returns normally has written its image and its mask there.
  The directory is not a function of the command line: the same command line with two
  generator states that draw different integers gives two different directories.
\<close>

theorem default_dir_drawn_once:
  "take 22 (DEFAULT_DIR r) = ''/data/synthetic_trial_'' \<and>
   int_of_str (drop 22 (DEFAULT_DIR r)) = Some (randint 10000 100000 r) \<and>
   10000 \<le> randint 10000 100000 r \<and> randint 10000 100000 r \<le> 100000 \<and>
   (10000 \<le> n \<and> n \<le> 100000 \<longrightarrow>
      DEFAULT_DIR (nat (n - 10000)) = ''/data/synthetic_trial_'' @ py_str n) \<and>
   (output_dir_opt cl = None \<and> parse_args r cl = Inr a \<and> j \<in> set (job_list a) \<and>
    generate_single_image E j w = (res, w') \<longrightarrow>
      output_dir a = DEFAULT_DIR r \<and> output_dir (args j) = DEFAULT_DIR r \<and>
      take (length (files w)) (files w') = files w \<and>
      (\<forall>x \<in> set (drop (length (files w)) (files w')). artifact_dir x = DEFAULT_DIR r) \<and>
      (res = Inr () \<longrightarrow>
         files w' = files w @ [Image (DEFAULT_DIR r) (seed_draw E),
                               GroundTruth (DEFAULT_DIR r) (seed_draw E)])) \<and>
   (output_dir_opt cl' = None \<and> parse_args r1 cl' = Inr a1 \<and> parse_args r2 cl' = Inr a2 \<and>
    randint 10000 100000 r1 \<noteq> randint 10000 100000 r2 \<longrightarrow> output_dir a1 \<noteq> output_dir a2)"
proof -
  have c1: "take 22 (DEFAULT_DIR r) = ''/data/synthetic_trial_''"
    by (simp add: DEFAULT_DIR_def)
  have c2: "int_of_str (drop 22 (DEFAULT_DIR r)) = Some (randint 10000 100000 r)"
    by (simp add: DEFAULT_DIR_def int_of_str_py_str)
  have c3: "10000 \<le> n \<and> n \<le> 100000 \<longrightarrow>
      DEFAULT_DIR (nat (n - 10000)) = ''/data/synthetic_trial_'' @ py_str n"
    using randint_default_reaches [of n] by (simp add: DEFAULT_DIR_def)
  have c4: "output_dir_opt cl = None \<and> parse_args r cl = Inr a \<and> j \<in> set (job_list a) \<and>
    generate_single_image E j w = (res, w') \<longrightarrow>
      output_dir a = DEFAULT_DIR r \<and> output_dir (args j) = DEFAULT_DIR r \<and>
      take (length (files w)) (files w') = files w \<and>
      (\<forall>x \<in> set (drop (length (files w)) (files w')). artifact_dir x = DEFAULT_DIR r) \<and>
      (res = Inr () \<longrightarrow>
         files w' = files w @ [Image (DEFAULT_DIR r) (seed_draw E),
                               GroundTruth (DEFAULT_DIR r) (seed_draw E)])"
  proof (intro impI, elim conjE)
    assume o: "output_dir_opt cl = None" and p: "parse_args r cl = Inr a"
      and j: "j \<in> set (job_list a)" and g: "generate_single_image E j w = (res, w')"
    have d: "output_dir a = DEFAULT_DIR r"
      using p o by (rule parse_args_default_dir)
    have "args j = a"
      using j by (rule args_job_list)
    then have dj: "output_dir (args j) = DEFAULT_DIR r"
      using d by simp
    show "output_dir a = DEFAULT_DIR r \<and> output_dir (args j) = DEFAULT_DIR r \<and>
      take (length (files w)) (files w') = files w \<and>
      (\<forall>x \<in> set (drop (length (files w)) (files w')). artifact_dir x = DEFAULT_DIR r) \<and>
      (res = Inr () \<longrightarrow>
         files w' = files w @ [Image (DEFAULT_DIR r) (seed_draw E),
                               GroundTruth (DEFAULT_DIR r) (seed_draw E)])"
      using job_files_under_output_dir [OF g] d dj by simp
  qed
  have c5: "output_dir_opt cl' = None \<and> parse_args r1 cl' = Inr a1 \<and> parse_args r2 cl' = Inr a2 \<and>
    randint 10000 100000 r1 \<noteq> randint 10000 100000 r2 \<longrightarrow> output_dir a1 \<noteq> output_dir a2"
    by (auto simp: parse_args_default_dir DEFAULT_DIR_def dest: py_str_inject)
  from c1 c2 randint_default_range [of r] c3 c4 c5 show ?thesis
    by (intro conjI) simp_all
qed

theorem default_dir_drawn_once_witness:
  "DEFAULT_DIR 0 = ''/data/synthetic_trial_10000'' \<and>
   DEFAULT_DIR 90000 = ''/data/synthetic_trial_100000'' \<and>
   parse_args 0 cl_default =
     Inr \<lparr>output_count = 5, stain_level = 1, text_noise_level = 1,
          output_dir = ''/data/synthetic_trial_10000''\<rparr> \<and>
   parse_args 90000 cl_default =
     Inr \<lparr>output_count = 5, stain_level = 1, text_noise_level = 1,
          output_dir = ''/data/synthetic_trial_100000''\<rparr> \<and>
   files (snd (generate_single_image (healthy 4)
     \<lparr>iter = 4, args = \<lparr>output_count = 5, stain_level = 1, text_noise_level = 1,
                         output_dir = ''/data/synthetic_trial_10000''\<rparr>\<rparr> w_init)) =
     [Image ''/data/synthetic_trial_10000'' 1004,
      GroundTruth ''/data/synthetic_trial_10000'' 1004] \<and>
   DEFAULT_DIR 0 \<noteq> DEFAULT_DIR 90000"
proof -
  let ?d1 = "''/data/synthetic_trial_10000''"
  let ?d2 = "''/data/synthetic_trial_100000''"
  let ?a1 = "\<lparr>output_count = 5, stain_level = 1, text_noise_level = 1, output_dir = ?d1\<rparr>"
  let ?a2 = "\<lparr>output_count = 5, stain_level = 1, text_noise_level = 1, output_dir = ?d2\<rparr>"
  let ?j = "\<lparr>iter = 4, args = ?a1\<rparr>"
  let ?w = "snd (generate_single_image (healthy 4) ?j w_init)"
  have d1: "DEFAULT_DIR 0 = ?d1"
    by (simp add: DEFAULT_DIR_def randint_def py_str_eval)
  have d2: "DEFAULT_DIR 90000 = ?d2"
    by (simp add: DEFAULT_DIR_def randint_def py_str_eval)
  have o: "output_dir_opt cl_default = None"
    by (simp add: cl_default_def)
  have p1: "parse_args 0 cl_default = Inr ?a1"
    by (simp add: cl_default_def parse_args_def positional_def d1)
  have p2: "parse_args 90000 cl_default = Inr ?a2"
    by (simp add: cl_default_def parse_args_def positional_def d2)
  have "job_list ?a1 ! 4 = \<lparr>iter = int 4, args = ?a1\<rparr>"
    by (rule nth_job_list) simp
  moreover have "job_list ?a1 ! 4 \<in> set (job_list ?a1)"
    by (rule nth_mem) (simp add: length_job_list)
  ultimately have j: "?j \<in> set (job_list ?a1)"
    by simp
  have g: "generate_single_image (healthy 4) ?j w_init = (Inr (), ?w)"
    by (simp add: gsi_healthy)
  have ne: "randint 10000 100000 0 \<noteq> randint 10000 100000 90000"
    by (simp add: randint_def)
  note T = default_dir_drawn_once [where r = 0 and n = 100000 and cl = cl_default and a = ?a1
      and j = ?j and E = "healthy 4" and w = w_init and res = "Inr ()" and w' = ?w
      and cl' = cl_default and ?r1.0 = 0 and ?a1.0 = ?a1 and ?r2.0 = 90000 and ?a2.0 = ?a2]
  have fl: "files ?w = files w_init @ [Image (DEFAULT_DIR 0) (seed_draw (healthy 4)),
                                       GroundTruth (DEFAULT_DIR 0) (seed_draw (healthy 4))]"
    using T o p1 j g by blast
  have s: "seed_draw (healthy 4) = 1004"
    by (simp add: healthy_def)
  have f0: "files w_init = []"
    by (simp add: w_init_def)
  from fl have run: "files ?w = [Image ?d1 1004, GroundTruth ?d1 1004]"
    by (simp only: d1 s f0 append_Nil)
  have "output_dir ?a1 \<noteq> output_dir ?a2"
    using T o p1 p2 ne by blast
  then have diff: "DEFAULT_DIR 0 \<noteq> DEFAULT_DIR 90000"
    by (simp add: d1 d2)
  from d1 d2 p1 p2 run diff show ?thesis
    by (intro conjI)
qed

end
